theory Spec2Isabelle
  imports Main "HOL-Library.Sublist"
begin

section \<open>The bag/validate/upload script\<close>

text \<open>
  A shallow embedding of \<^verbatim>\<open>sample-python-scripts/bag_validate_upload_linux.py\<close>.
  The script has no functions: its module body reads a block of constants, derives a few
  flag strings from them, stores two credentials in the process environment and then loops
  over a list of job dictionaries, running three shell commands per job and printing a line
  after each.

  The constants of the configuration block and the job list are parameters of the model (the
  block is the part of the script a user fills in). Strings are \<^typ>\<open>string\<close>; a
  character of the model stands for one code point of the Python string.
\<close>

subsection \<open>Configuration and jobs\<close>

text \<open>Lines 9 to 27: the constants as the user wrote them, before any rebinding.\<close>

record config =
  bucket_name :: string
  aws_access_key :: string
  aws_secret_key :: string
  output_dir :: string
  profile :: string
  manifest_algs :: string
  source_organization :: string
  storage_option :: string

text \<open>
  A job is a Python dictionary from strings to strings; the loop body subscripts it with
  \<^verbatim>\<open>"title"\<close>, \<^verbatim>\<open>"access"\<close> and \<^verbatim>\<open>"source_dir"\<close>, and a subscript with a
  missing key raises \<^verbatim>\<open>KeyError\<close>. The other exceptions are those the assignments to
  \<^verbatim>\<open>os.environ\<close> and the calls of \<^verbatim>\<open>subprocess.run\<close> can raise. The script has
  no \<^verbatim>\<open>try\<close>: an exception that is raised ends it.
\<close>

type_synonym job = "string \<rightharpoonup> string"

datatype py_error = KeyError string | ValueError | UnicodeDecodeError | OSError

definition getitem :: "job \<Rightarrow> string \<Rightarrow> py_error + string" where
  "getitem bag k = (case bag k of None \<Rightarrow> Inl (KeyError k) | Some v \<Rightarrow> Inr v)"

subsection \<open>String operations of Python used by the script\<close>

text \<open>\<^verbatim>\<open>s.find(c)\<close> for a one-character needle: the least index of \<open>c\<close>, or \<open>-1\<close>.\<close>

definition str_find :: "string \<Rightarrow> char \<Rightarrow> int" where
  "str_find s c =
     (if c \<in> set s then int (length (takeWhile (\<lambda>x. x \<noteq> c) s)) else - 1)"

text \<open>
  \<^verbatim>\<open>s[start::]\<close>: a negative start counts from the end; the start is then clamped to
  the range from \<open>0\<close> to \<open>len(s)\<close>. A slice never raises.
\<close>

definition slice_from :: "string \<Rightarrow> int \<Rightarrow> string" where
  "slice_from s start =
     (let n = int (length s);
          k = (if start < 0 then max (start + n) 0 else min start n)
      in drop (nat k) s)"

text \<open>
  Lines 50 and 51:
  \<^verbatim>\<open>index_slash = bag["source_dir"][::-1].find('/')\<close> and
  \<^verbatim>\<open>bag_name = bag["source_dir"][-index_slash::]\<close>.
\<close>

definition index_slash :: "string \<Rightarrow> int" where
  "index_slash src = str_find (rev src) (CHR ''/'')"

definition bag_name :: "string \<Rightarrow> string" where
  "bag_name src = slice_from src (- index_slash src)"

subsection \<open>Flag strings and command lines\<close>

text \<open>
  Lines 37 to 41. The script rebinds \<^verbatim>\<open>manifest_algs\<close>, \<^verbatim>\<open>source_organization\<close>
  and \<^verbatim>\<open>storage_option\<close> to the flag built from their old value; the model keeps the
  record field for the old value and gives the flag the suffix \<open>_flag\<close>.
\<close>

text \<open>The one-character strings \<^verbatim>\<open>'\<close> and \<^verbatim>\<open>"\<close>.\<close>

abbreviation squote :: string where
  "squote \<equiv> [CHR 0x27]"

abbreviation dquote :: string where
  "dquote \<equiv> [CHR 0x22]"

definition profile_full :: "config \<Rightarrow> string" where
  "profile_full cfg = '' --profile='' @ profile cfg"

definition manifest_algs_flag :: "config \<Rightarrow> string" where
  "manifest_algs_flag cfg = '' --manifest-algs='' @ manifest_algs cfg"

definition source_organization_flag :: "config \<Rightarrow> string" where
  "source_organization_flag cfg =
     '' --tags='bag-info.txt/Source-Organization='' @ source_organization cfg @ squote"

definition output_file :: "config \<Rightarrow> string" where
  "output_file cfg = '' --output-file='' @ output_dir cfg @ ''/''"

definition storage_option_flag :: "config \<Rightarrow> string" where
  "storage_option_flag cfg =
     '' --tags='aptrust-info.txt/Storage-Option='' @ storage_option cfg @ squote"

text \<open>Lines 47 to 49, as functions of the value looked up in the job.\<close>

definition title :: "string \<Rightarrow> string" where
  "title t = '' --tags='aptrust-info.txt/Title='' @ t @ squote"

definition access :: "string \<Rightarrow> string" where
  "access a = '' --tags='aptrust-info.txt/Access='' @ a @ squote"

definition bag_dir :: "string \<Rightarrow> string" where
  "bag_dir src = '' --bag-dir='' @ src"

text \<open>Lines 53, 60 and 68. The arguments are the job's source directory, title and access.\<close>

definition create_command :: "config \<Rightarrow> string \<Rightarrow> string \<Rightarrow> string \<Rightarrow> string" where
  "create_command cfg src t a =
     ''apt-cmd bag create'' @ profile_full cfg @ manifest_algs_flag cfg @ output_file cfg
       @ bag_name src @ ''.tar'' @ bag_dir src @ source_organization_flag cfg
       @ title t @ access a @ storage_option_flag cfg"

definition validate_command :: "config \<Rightarrow> string \<Rightarrow> string" where
  "validate_command cfg src =
     ''apt-cmd bag validate -p '' @ profile cfg @ '' '' @ output_dir cfg @ ''/''
       @ bag_name src @ ''.tar''"

definition upload_command :: "config \<Rightarrow> string \<Rightarrow> string" where
  "upload_command cfg src =
     ''apt-cmd s3 upload --host=s3.amazonaws.com --bucket='' @ dquote @ bucket_name cfg
       @ dquote @ '' '' @ output_dir cfg @ ''/'' @ bag_name src @ ''.tar''"

subsection \<open>Effects\<close>

text \<open>
  The script has three kinds of effect: it assigns to \<^verbatim>\<open>os.environ\<close>, it runs a
  shell command with \<^verbatim>\<open>subprocess.run\<close> (the child inherits the environment of that
  moment), and it prints. The state is the current environment and the chronological trace
  of the effects so far. One \<open>Print\<close> event is one call of \<^verbatim>\<open>print\<close>.
\<close>

type_synonym env = "string \<rightharpoonup> string"

datatype event = Putenv string string | Run string env | Print string

record state =
  environ :: env
  trace :: "event list"

fun is_Run :: "event \<Rightarrow> bool" where
  "is_Run (Run c e) = True"
| "is_Run _ = False"

fun is_Print :: "event \<Rightarrow> bool" where
  "is_Print (Print l) = True"
| "is_Print _ = False"

fun is_Putenv :: "event \<Rightarrow> bool" where
  "is_Putenv (Putenv k v) = True"
| "is_Putenv _ = False"

fun commands :: "event list \<Rightarrow> string list" where
  "commands [] = []"
| "commands (Run c e # tr) = c # commands tr"
| "commands (_ # tr) = commands tr"

fun printed :: "event list \<Rightarrow> string list" where
  "printed [] = []"
| "printed (Print l # tr) = l # printed tr"
| "printed (_ # tr) = printed tr"

definition ncalls :: "event list \<Rightarrow> nat" where
  "ncalls tr = length (commands tr)"

definition putenv :: "string \<Rightarrow> string \<Rightarrow> state \<Rightarrow> state" where
  "putenv k v st = st\<lparr>environ := (environ st)(k \<mapsto> v), trace := trace st @ [Putenv k v]\<rparr>"

definition print :: "string \<Rightarrow> state \<Rightarrow> state" where
  "print l st = st\<lparr>trace := trace st @ [Print l]\<rparr>"

text \<open>
  \<^verbatim>\<open>subprocess.run(cmd, shell=True, capture_output=True, text=True)\<close>. The outside
  world is a sequence \<open>rc\<close> of return codes: the call number \<open>i\<close> of the run (counted from
  \<open>0\<close>) returns \<open>rc i\<close>. The script reads nothing of the result but the return code. This
  is the call on a run in which it returns; the outcomes in which it raises are in
  \<open>subprocess_run_or_raise\<close> below.
\<close>

definition subprocess_run :: "(nat \<Rightarrow> int) \<Rightarrow> string \<Rightarrow> state \<Rightarrow> int \<times> state" where
  "subprocess_run rc cmd st =
     (rc (ncalls (trace st)), st\<lparr>trace := trace st @ [Run cmd (environ st)]\<rparr>)"

subsection \<open>The loop body and the loop\<close>

text \<open>
  Lines 47 to 75 for one job. The three subscripts come first, so a \<^verbatim>\<open>KeyError\<close>
  leaves the state as it was. A return code is tested for truth: any non-zero code is a
  failure. \<^verbatim>\<open>continue\<close> after a failed validation ends the body.
\<close>

definition process_job :: "config \<Rightarrow> (nat \<Rightarrow> int) \<Rightarrow> job \<Rightarrow> state \<Rightarrow> py_error + state" where
  "process_job cfg rc bag st =
     (case getitem bag ''title'' of Inl e \<Rightarrow> Inl e | Inr t \<Rightarrow>
      case getitem bag ''access'' of Inl e \<Rightarrow> Inl e | Inr a \<Rightarrow>
      case getitem bag ''source_dir'' of Inl e \<Rightarrow> Inl e | Inr src \<Rightarrow>
        let (create, st1) = subprocess_run rc (create_command cfg src t a) st;
            st2 = (if create \<noteq> 0 then print (''ERROR CREATING: '' @ bag_name src) st1
                   else print (''Bagged: '' @ bag_name src) st1);
            (validate, st3) = subprocess_run rc (validate_command cfg src) st2
        in if validate \<noteq> 0 then Inr (print (''ERROR VALIDATING: '' @ bag_name src) st3)
           else
             let st4 = print (''Validated: '' @ bag_name src) st3;
                 (upload, st5) = subprocess_run rc (upload_command cfg src) st4;
                 st6 = (if upload \<noteq> 0 then print (''ERROR UPLOADING: '' @ bag_name src) st5
                        else print (''Uploaded: '' @ bag_name src) st5)
             in Inr (print (''Bagged, Validated, Uploaded: '' @ bag_name src) st6))"

text \<open>
  Line 46: the \<^verbatim>\<open>for\<close> loop. An exception ends the script; what was printed and run
  before it stays, so the result is the state reached and the exception, if any.
\<close>

fun run_jobs :: "config \<Rightarrow> (nat \<Rightarrow> int) \<Rightarrow> job list \<Rightarrow> state \<Rightarrow> state \<times> py_error option" where
  "run_jobs cfg rc [] st = (st, None)"
| "run_jobs cfg rc (bag # rest) st =
     (case process_job cfg rc bag st of
        Inl e \<Rightarrow> (st, Some e)
      | Inr st' \<Rightarrow> run_jobs cfg rc rest st')"

text \<open>
  The whole module body: lines 43 and 44 set the credentials, then the loop runs. \<open>env0\<close> is
  the environment the script itself was started with.
\<close>

definition script :: "config \<Rightarrow> job list \<Rightarrow> (nat \<Rightarrow> int) \<Rightarrow> env \<Rightarrow> state \<times> py_error option" where
  "script cfg jobs rc env0 =
     run_jobs cfg rc jobs
       (putenv ''APTRUST_AWS_SECRET'' (aws_secret_key cfg)
         (putenv ''APTRUST_AWS_KEY'' (aws_access_key cfg)
           \<lparr>environ = env0, trace = []\<rparr>))"

subsection \<open>Assignments and calls that raise\<close>

text \<open>
  The definitions above are the script on a run in which the two assignments to
  \<^verbatim>\<open>os.environ\<close> and every call of \<^verbatim>\<open>subprocess.run\<close> return. The definitions of
  this subsection give these operations with all their outcomes, and the script built from
  them.

  \<^verbatim>\<open>os.environ[k] = v\<close> raises \<^verbatim>\<open>ValueError\<close> when the name is empty or contains
  \<^verbatim>\<open>=\<close>, and when the name or the value contains a NUL character.
\<close>

definition nul_free :: "string \<Rightarrow> bool" where
  "nul_free s = (CHR 0x00 \<notin> set s)"

definition environ_setitem :: "string \<Rightarrow> string \<Rightarrow> state \<Rightarrow> py_error + state" where
  "environ_setitem k v st =
     (if k \<noteq> [] \<and> CHR ''='' \<notin> set k \<and> nul_free k \<and> nul_free v then Inr (putenv k v st)
      else Inl ValueError)"

text \<open>
  \<^verbatim>\<open>subprocess.run(cmd, shell=True, capture_output=True, text=True)\<close> raises
  \<^verbatim>\<open>ValueError\<close>, before any process is started, when the command line contains a
  NUL character. Otherwise the outcome lies with the outside world: the shell is not started
  (\<^verbatim>\<open>OSError\<close>, for one on a command line that is too long), or the child runs and its
  captured output cannot be decoded as text (\<^verbatim>\<open>UnicodeDecodeError\<close>), or the child runs
  and the call returns its return code. \<open>world i\<close> is the outcome of the call number \<open>i\<close>.
\<close>

datatype outcome = Completed int | Undecodable_output | Not_started

definition subprocess_run_or_raise ::
    "(nat \<Rightarrow> outcome) \<Rightarrow> string \<Rightarrow> state \<Rightarrow> (py_error + int) \<times> state" where
  "subprocess_run_or_raise world cmd st =
     (if nul_free cmd then
        (case world (ncalls (trace st)) of
           Completed c \<Rightarrow> (Inr c, st\<lparr>trace := trace st @ [Run cmd (environ st)]\<rparr>)
         | Undecodable_output \<Rightarrow>
             (Inl UnicodeDecodeError, st\<lparr>trace := trace st @ [Run cmd (environ st)]\<rparr>)
         | Not_started \<Rightarrow> (Inl OSError, st))
      else (Inl ValueError, st))"

text \<open>
  Lines 47 to 75 for one job, with these calls. The result is the state reached and the
  exception that ended the pass, if any.
\<close>

definition process_job_or_raise ::
    "config \<Rightarrow> (nat \<Rightarrow> outcome) \<Rightarrow> job \<Rightarrow> state \<Rightarrow> state \<times> py_error option" where
  "process_job_or_raise cfg world bag st =
     (case getitem bag ''title'' of Inl e \<Rightarrow> (st, Some e) | Inr t \<Rightarrow>
      case getitem bag ''access'' of Inl e \<Rightarrow> (st, Some e) | Inr a \<Rightarrow>
      case getitem bag ''source_dir'' of Inl e \<Rightarrow> (st, Some e) | Inr src \<Rightarrow>
      case subprocess_run_or_raise world (create_command cfg src t a) st of
        (Inl e, st1) \<Rightarrow> (st1, Some e)
      | (Inr create, st1) \<Rightarrow>
          let st2 = (if create \<noteq> 0 then print (''ERROR CREATING: '' @ bag_name src) st1
                     else print (''Bagged: '' @ bag_name src) st1)
          in case subprocess_run_or_raise world (validate_command cfg src) st2 of
               (Inl e, st3) \<Rightarrow> (st3, Some e)
             | (Inr validate, st3) \<Rightarrow>
                 if validate \<noteq> 0
                 then (print (''ERROR VALIDATING: '' @ bag_name src) st3, None)
                 else
                   let st4 = print (''Validated: '' @ bag_name src) st3
                   in case subprocess_run_or_raise world (upload_command cfg src) st4 of
                        (Inl e, st5) \<Rightarrow> (st5, Some e)
                      | (Inr upload, st5) \<Rightarrow>
                          let st6 = (if upload \<noteq> 0
                                     then print (''ERROR UPLOADING: '' @ bag_name src) st5
                                     else print (''Uploaded: '' @ bag_name src) st5)
                          in (print (''Bagged, Validated, Uploaded: '' @ bag_name src) st6,
                              None))"

fun run_jobs_or_raise ::
    "config \<Rightarrow> (nat \<Rightarrow> outcome) \<Rightarrow> job list \<Rightarrow> state \<Rightarrow> state \<times> py_error option" where
  "run_jobs_or_raise cfg world [] st = (st, None)"
| "run_jobs_or_raise cfg world (bag # rest) st =
     (case process_job_or_raise cfg world bag st of
        (st', Some e) \<Rightarrow> (st', Some e)
      | (st', None) \<Rightarrow> run_jobs_or_raise cfg world rest st')"

definition script_or_raise ::
    "config \<Rightarrow> job list \<Rightarrow> (nat \<Rightarrow> outcome) \<Rightarrow> env \<Rightarrow> state \<times> py_error option" where
  "script_or_raise cfg jobs world env0 =
     (case environ_setitem ''APTRUST_AWS_KEY'' (aws_access_key cfg)
             \<lparr>environ = env0, trace = []\<rparr> of
        Inl e \<Rightarrow> (\<lparr>environ = env0, trace = []\<rparr>, Some e)
      | Inr st1 \<Rightarrow>
          (case environ_setitem ''APTRUST_AWS_SECRET'' (aws_secret_key cfg) st1 of
             Inl e \<Rightarrow> (st1, Some e)
           | Inr st2 \<Rightarrow> run_jobs_or_raise cfg world jobs st2))"




subsection \<open>The shell's view of a command line\<close>

text \<open>
  With \<^verbatim>\<open>shell=True\<close> the command string is handed to \<^verbatim>\<open>/bin/sh -c\<close>, and the
  shell splits it into the words that \<^verbatim>\<open>apt-cmd\<close> receives as its arguments. What a
  flag of the command and its value are is decided there. \<open>sh_words\<close> is the word splitting
  of the POSIX shell on the command lines that consist of plain characters, blanks and
  single-quoted parts: blanks outside quotes separate words, a single quote opens a part in
  which every character up to the next single quote stands for itself, and a quoted part
  joins the word it touches. On any other character outside quotes (a character with a
  meaning of its own for some shell, such as a double quote, a backslash, a dollar sign or a
  newline) and on an unclosed quote the result is \<open>None\<close>: such command lines are outside
  what is modelled.
\<close>

definition blank :: "char \<Rightarrow> bool" where
  "blank c = (c = CHR '' '' \<or> c = CHR 0x09)"

definition plain :: "char \<Rightarrow> bool" where
  "plain c =
     (c \<in> set ''abcdefghijklmnopqrstuvwxyzABCDEFGHIJKLMNOPQRSTUVWXYZ0123456789/._-=,:'')"

definition word_of :: "string option \<Rightarrow> string" where
  "word_of cur = (case cur of None \<Rightarrow> [] | Some w \<Rightarrow> w)"

text \<open>
  \<open>sh_split quoted cur s\<close>: \<open>cur\<close> is the word begun so far (\<open>None\<close> between words), and
  \<open>quoted\<close> tells whether \<open>s\<close> starts inside single quotes.
\<close>

fun sh_split :: "bool \<Rightarrow> string option \<Rightarrow> string \<Rightarrow> string list option" where
  "sh_split False cur [] = Some (case cur of None \<Rightarrow> [] | Some w \<Rightarrow> [w])"
| "sh_split True cur [] = None"
| "sh_split True cur (c # cs) =
     (if c = CHR 0x27 then sh_split False cur cs
      else sh_split True (Some (word_of cur @ [c])) cs)"
| "sh_split False cur (c # cs) =
     (if c = CHR 0x27 then sh_split True (Some (word_of cur)) cs
      else if blank c then
        (case cur of
           None \<Rightarrow> sh_split False None cs
         | Some w \<Rightarrow> map_option ((#) w) (sh_split False None cs))
      else if plain c then sh_split False (Some (word_of cur @ [c])) cs
      else None)"

definition sh_words :: "string \<Rightarrow> string list option" where
  "sh_words cmd = sh_split False None cmd"

text \<open>The values of the flag \<open>name\<close> among words: what follows \<open>name=\<close> in each word that starts so.\<close>

definition flag_values :: "string \<Rightarrow> string list \<Rightarrow> string list" where
  "flag_values name ws = map (drop (length name + 1)) (filter (prefix (name @ ''='')) ws)"

text \<open>The configuration and the job list the script ships with.\<close>

definition shipped_config :: config where
  "shipped_config =
     \<lparr>bucket_name = ''aptrust.receiving.test.acr7d.edu'',
      aws_access_key = '''',
      aws_secret_key = '''',
      output_dir = ''/home/emory/aptrust/testing_files/testing_output'',
      profile = ''aptrust'',
      manifest_algs = ''md5,sha256'',
      source_organization = ''College'',
      storage_option = ''Standard''\<rparr>"

definition mk_job :: "string \<Rightarrow> string \<Rightarrow> string \<Rightarrow> job" where
  "mk_job src t a = [''source_dir'' \<mapsto> src, ''title'' \<mapsto> t, ''access'' \<mapsto> a]"

definition shipped_jobs :: "job list" where
  "shipped_jobs =
     [mk_job ''/home/emory/aptrust/testing_files/testing_input/test_bag_1'' ''Bag 1'' ''Institution'',
      mk_job ''/home/emory/aptrust/testing_files/testing_input/test_bag_2'' ''Bag 2'' ''Consortia'',
      mk_job ''/home/emory/aptrust/testing_files/testing_input/test_bag_3'' ''Bag 2'' ''Consortia'']"

text \<open>
  The events one pass of the loop body adds to the trace (none when the pass raises).
\<close>

definition job_events :: "config \<Rightarrow> (nat \<Rightarrow> int) \<Rightarrow> job \<Rightarrow> state \<Rightarrow> event list" where
  "job_events cfg rc bag st =
     (case process_job cfg rc bag st of
        Inl e \<Rightarrow> []
      | Inr st' \<Rightarrow> drop (length (trace st)) (trace st'))"

text \<open>
  The last path segment in the spec's words, for comparison with \<open>bag_name\<close>: the
  substring after the final \<^verbatim>\<open>/\<close> (all of the string when it has none).
\<close>

definition last_segment :: "string \<Rightarrow> string" where
  "last_segment s = rev (takeWhile (\<lambda>c. c \<noteq> CHR ''/'') (rev s))"

text \<open>
  A job as the data model describes it: a dictionary that has the three keys the loop body
  reads.
\<close>

definition has_keys :: "job \<Rightarrow> bool" where
  "has_keys bag = (bag ''title'' \<noteq> None \<and> bag ''access'' \<noteq> None \<and> bag ''source_dir'' \<noteq> None)"


text \<open>\<open>run_sees k v e\<close>: if \<open>e\<close> runs a command, the child's environment has \<open>v\<close> under \<open>k\<close>.\<close>

fun run_sees :: "string \<Rightarrow> string option \<Rightarrow> event \<Rightarrow> bool" where
  "run_sees k v (Run c e) = (e k = v)"
| "run_sees k v (Putenv x y) = True"
| "run_sees k v (Print l) = True"

text \<open>
  Sample inputs: the job of the first shipped entry under a short path, a state in which
  nothing has happened yet, and return-code sequences in which every call succeeds or in
  which only the call number \<open>k\<close> fails.
\<close>

definition sample_job :: job where
  "sample_job = mk_job ''/a/b/test_bag_1'' ''Bag 1'' ''Institution''"

definition fresh :: state where
  "fresh = \<lparr>environ = Map.empty, trace = []\<rparr>"

definition all_ok :: "nat \<Rightarrow> int" where
  "all_ok i = 0"

definition fail_at :: "nat \<Rightarrow> nat \<Rightarrow> int" where
  "fail_at k i = (if i = k then 1 else 0)"

text \<open>A sequence that agrees with \<open>fail_at k\<close> on the first \<open>m\<close> calls and fails from then on.\<close>

definition fail_at_and_from :: "nat \<Rightarrow> nat \<Rightarrow> nat \<Rightarrow> int" where
  "fail_at_and_from k m i = (if i = k \<or> m \<le> i then 1 else 0)"


definition garbled_first :: "nat \<Rightarrow> outcome" where
  "garbled_first i = (if i = 0 then Undecodable_output else Completed 0)"

definition other_env :: env where
  "other_env = [''HOME'' \<mapsto> ''/home/emory'']"

section \<open>Basic facts\<close>

lemma commands_append: "commands (xs @ ys) = commands xs @ commands ys"
  by (induction xs rule: commands.induct) simp_all

lemma printed_append: "printed (xs @ ys) = printed xs @ printed ys"
  by (induction xs rule: printed.induct) simp_all

lemma ncalls_append: "ncalls (xs @ ys) = ncalls xs + ncalls ys"
  by (simp add: ncalls_def commands_append)

lemma ncalls_simps:
  "ncalls [] = 0"
  "ncalls (Run c e # tr) = Suc (ncalls tr)"
  "ncalls (Print l # tr) = ncalls tr"
  "ncalls (Putenv k v # tr) = ncalls tr"
  by (simp_all add: ncalls_def)

text \<open>
  One pass of the loop body on a job that has its three keys. With \<open>n\<close> calls made
  before the pass, the create call is call \<open>n\<close>, the validate call is call \<open>n + 1\<close> and
  the upload call, when it happens, is call \<open>n + 2\<close>.
\<close>

lemma process_job_trace:
  assumes "bag ''title'' = Some t" and "bag ''access'' = Some a"
    and "bag ''source_dir'' = Some src"
  shows "process_job cfg rc bag st =
    Inr (st\<lparr>trace := trace st @
      [Run (create_command cfg src t a) (environ st),
       Print ((if rc (ncalls (trace st)) \<noteq> 0 then ''ERROR CREATING: '' else ''Bagged: '')
                @ bag_name src),
       Run (validate_command cfg src) (environ st)] @
      (if rc (Suc (ncalls (trace st))) \<noteq> 0
       then [Print (''ERROR VALIDATING: '' @ bag_name src)]
       else [Print (''Validated: '' @ bag_name src),
             Run (upload_command cfg src) (environ st),
             Print ((if rc (Suc (Suc (ncalls (trace st)))) \<noteq> 0 then ''ERROR UPLOADING: ''
                     else ''Uploaded: '') @ bag_name src),
             Print (''Bagged, Validated, Uploaded: '' @ bag_name src)])\<rparr>)"
  using assms
  by (simp add: process_job_def getitem_def subprocess_run_def print_def ncalls_append
      ncalls_simps Let_def)

lemma bag_name_sample: "bag_name ''/a/b/test_bag_1'' = ''test_bag_1''"
  by (simp add: bag_name_def index_slash_def str_find_def slice_from_def)

lemma sample_job_keys:
  "sample_job ''title'' = Some ''Bag 1''"
  "sample_job ''access'' = Some ''Institution''"
  "sample_job ''source_dir'' = Some ''/a/b/test_bag_1''"
  by (simp_all add: sample_job_def mk_job_def)

lemma job_events_eq:
  assumes "bag ''title'' = Some t" and "bag ''access'' = Some a"
    and "bag ''source_dir'' = Some src"
  shows "job_events cfg rc bag st =
      [Run (create_command cfg src t a) (environ st),
       Print ((if rc (ncalls (trace st)) \<noteq> 0 then ''ERROR CREATING: '' else ''Bagged: '')
                @ bag_name src),
       Run (validate_command cfg src) (environ st)] @
      (if rc (Suc (ncalls (trace st))) \<noteq> 0
       then [Print (''ERROR VALIDATING: '' @ bag_name src)]
       else [Print (''Validated: '' @ bag_name src),
             Run (upload_command cfg src) (environ st),
             Print ((if rc (Suc (Suc (ncalls (trace st)))) \<noteq> 0 then ''ERROR UPLOADING: ''
                     else ''Uploaded: '') @ bag_name src),
             Print (''Bagged, Validated, Uploaded: '' @ bag_name src)])"
  using assms by (simp add: job_events_def process_job_trace)

text \<open>What \<open>bag_name\<close> computes, by the shape of the source directory.\<close>

lemma bag_name_suffix: "suffix (bag_name src) src"
  by (simp add: bag_name_def slice_from_def Let_def suffix_drop)

lemma bag_name_cases:
  "bag_name src =
     (if CHR ''/'' \<notin> set src then drop 1 src
      else if last src = CHR ''/'' then src
      else last_segment src)"
proof -
  let ?P = "\<lambda>c. c \<noteq> CHR ''/''"
  let ?k = "length (takeWhile ?P (rev src))"
  show ?thesis
  proof (cases "CHR ''/'' \<in> set src")
    case False
    then show ?thesis
      by (cases src) (simp_all add: bag_name_def index_slash_def str_find_def slice_from_def)
  next
    case True
    then have ne: "src \<noteq> []" by auto
    have idx: "index_slash src = int ?k"
      using True by (simp add: index_slash_def str_find_def)
    have kle: "?k \<le> length src"
      using length_takeWhile_le [of ?P "rev src"] by simp
    show ?thesis
    proof (cases "last src = CHR ''/''")
      case slash: True
      then have "hd (rev src) = CHR ''/''" using ne by (simp add: hd_rev)
      then have "takeWhile ?P (rev src) = []"
        using ne by (cases "rev src") simp_all
      then have "?k = 0" by simp
      then show ?thesis
        using True slash idx by (simp add: bag_name_def slice_from_def)
    next
      case noslash: False
      then have "hd (rev src) \<noteq> CHR ''/''" using ne by (simp add: hd_rev)
      then have kpos: "0 < ?k"
        using ne by (cases "rev src") simp_all
      have "bag_name src = drop (length src - ?k) src"
        using kpos kle idx
        by (simp add: bag_name_def slice_from_def Let_def nat_diff_distrib' max_def)
      also have "\<dots> = rev (take ?k (rev src))"
        by (simp add: rev_take)
      also have "take ?k (rev src) = takeWhile ?P (rev src)"
        by (rule takeWhile_eq_take [symmetric])
      finally show ?thesis
        using True noslash by (simp add: last_segment_def)
    qed
  qed
qed


lemma bag_name_last_segment:
  assumes "CHR ''/'' \<in> set src" and "last src \<noteq> CHR ''/''"
  shows "bag_name src = last_segment src"
  using assms by (simp add: bag_name_cases)

lemma shipped_bag_names:
  "bag_name ''/home/emory/aptrust/testing_files/testing_input/test_bag_1'' = ''test_bag_1''"
  "bag_name ''/home/emory/aptrust/testing_files/testing_input/test_bag_2'' = ''test_bag_2''"
  "bag_name ''/home/emory/aptrust/testing_files/testing_input/test_bag_3'' = ''test_bag_3''"
  by (simp_all add: bag_name_def index_slash_def str_find_def slice_from_def)

text \<open>Word splitting of a command line built from plain and from quoted values.\<close>

lemma plain_not_special: "plain c \<Longrightarrow> c \<noteq> CHR 0x27 \<and> \<not> blank c"
  by (auto simp: plain_def blank_def)

lemma sh_split_plain:
  "list_all plain xs \<Longrightarrow>
     sh_split False (Some w) (xs @ rest) = sh_split False (Some (w @ xs)) rest"
proof (induction xs arbitrary: w)
  case Nil
  show ?case by simp
next
  case (Cons x xs)
  then have "plain x" and "list_all plain xs" by simp_all
  with Cons.IH [of "w @ [x]"] plain_not_special [of x] show ?case
    by (simp add: word_of_def)
qed

lemma sh_split_quoted:
  "CHR 0x27 \<notin> set xs \<Longrightarrow>
     sh_split True (Some w) (xs @ CHR 0x27 # rest) = sh_split False (Some (w @ xs)) rest"
proof (induction xs arbitrary: w)
  case Nil
  show ?case by simp
next
  case (Cons x xs)
  then have "x \<noteq> CHR 0x27" and "CHR 0x27 \<notin> set xs" by auto
  with Cons.IH [of "w @ [x]"] show ?case
    by (simp add: word_of_def)
qed

lemma bag_name_chars: "set (bag_name src) \<subseteq> set src"
  using bag_name_suffix [of src] by (rule set_mono_suffix)

lemma plain_bag_name: "list_all plain src \<Longrightarrow> list_all plain (bag_name src)"
  using bag_name_chars [of src] by (auto simp: list_all_iff)

lemma sh_words_create_command:
  assumes "list_all plain (profile cfg)" and "list_all plain (manifest_algs cfg)"
    and "list_all plain (output_dir cfg)" and "list_all plain src"
    and "CHR 0x27 \<notin> set (source_organization cfg)" and "CHR 0x27 \<notin> set t"
    and "CHR 0x27 \<notin> set a" and "CHR 0x27 \<notin> set (storage_option cfg)"
  shows "sh_words (create_command cfg src t a) =
    Some [''apt-cmd'', ''bag'', ''create'',
          ''--profile='' @ profile cfg,
          ''--manifest-algs='' @ manifest_algs cfg,
          ''--output-file='' @ output_dir cfg @ ''/'' @ bag_name src @ ''.tar'',
          ''--bag-dir='' @ src,
          ''--tags=bag-info.txt/Source-Organization='' @ source_organization cfg,
          ''--tags=aptrust-info.txt/Title='' @ t,
          ''--tags=aptrust-info.txt/Access='' @ a,
          ''--tags=aptrust-info.txt/Storage-Option='' @ storage_option cfg]"
  using assms plain_bag_name [of src]
  by (simp add: sh_words_def create_command_def profile_full_def manifest_algs_flag_def
      output_file_def bag_dir_def source_organization_flag_def title_def access_def
      storage_option_flag_def word_of_def blank_def plain_def sh_split_plain sh_split_quoted)

lemma unquoted_space_splits_source_dir:
  "map_option (flag_values ''--bag-dir'')
     (sh_words (create_command shipped_config ''/a/my bags/test_bag_1'' ''Bag 1'' ''Institution''))
   = Some [''/a/my'']"
  by (simp add: sh_words_def create_command_def profile_full_def manifest_algs_flag_def
      output_file_def bag_dir_def source_organization_flag_def title_def access_def
      storage_option_flag_def word_of_def blank_def plain_def shipped_config_def
      flag_values_def bag_name_def index_slash_def str_find_def slice_from_def)

text \<open>The loop body raises exactly when a key is missing, and the loop only adds runs and prints.\<close>

lemma process_job_Inr_keys:
  assumes "process_job cfg rc bag st = Inr st'"
  obtains t a src where "bag ''title'' = Some t" and "bag ''access'' = Some a"
    and "bag ''source_dir'' = Some src"
  using assms
  by (cases "bag ''title''"; cases "bag ''access''"; cases "bag ''source_dir''")
    (simp_all add: process_job_def getitem_def)

lemma process_job_Inl_any:
  assumes "process_job cfg rc bag st = Inl e"
  shows "process_job cfg' rc' bag st' = Inl e"
proof (cases "has_keys bag")
  case True
  then obtain t a src where "bag ''title'' = Some t" "bag ''access'' = Some a"
    "bag ''source_dir'' = Some src"
    by (auto simp: has_keys_def)
  with assms show ?thesis by (simp add: process_job_trace)
next
  case False
  with assms show ?thesis
    by (cases "bag ''title''"; cases "bag ''access''"; cases "bag ''source_dir''")
      (simp_all add: process_job_def getitem_def has_keys_def)
qed

lemma run_jobs_step:
  assumes "has_keys bag"
  shows "run_jobs cfg rc (bag # rest) st =
    run_jobs cfg rc rest (st\<lparr>trace := trace st @ job_events cfg rc bag st\<rparr>)"
proof -
  from assms obtain t a src where keys: "bag ''title'' = Some t" "bag ''access'' = Some a"
    "bag ''source_dir'' = Some src"
    by (auto simp: has_keys_def)
  show ?thesis
    by (simp add: job_events_eq [OF keys] process_job_trace [OF keys])
qed

lemma missing_title_raises:
  "bag ''title'' = None \<Longrightarrow> run_jobs cfg rc (bag # rest) st = (st, Some (KeyError ''title''))"
  by (simp add: process_job_def getitem_def)

lemma run_jobs_extends:
  "\<exists>tr. trace (fst (run_jobs cfg rc jobs st)) = trace st @ tr
     \<and> filter is_Putenv tr = []
     \<and> list_all (run_sees k (environ st k)) tr
     \<and> environ (fst (run_jobs cfg rc jobs st)) = environ st"
proof (induction jobs arbitrary: st)
  case Nil
  show ?case by simp
next
  case (Cons bag rest)
  show ?case
  proof (cases "process_job cfg rc bag st")
    case (Inl e)
    then show ?thesis by simp
  next
    case (Inr st1)
    then obtain t a src where keys: "bag ''title'' = Some t" "bag ''access'' = Some a"
      "bag ''source_dir'' = Some src"
      by (rule process_job_Inr_keys)
    from Inr obtain seg where st1: "trace st1 = trace st @ seg" "environ st1 = environ st"
      and seg: "filter is_Putenv seg = []" "list_all (run_sees k (environ st k)) seg"
      unfolding process_job_trace [OF keys] by auto
    from Cons.IH [of st1] obtain tr where
      tr: "trace (fst (run_jobs cfg rc rest st1)) = trace st1 @ tr"
        "filter is_Putenv tr = []" "list_all (run_sees k (environ st1 k)) tr"
        "environ (fst (run_jobs cfg rc rest st1)) = environ st1"
      by blast
    have "trace (fst (run_jobs cfg rc (bag # rest) st)) = trace st @ (seg @ tr)"
      using Inr st1 tr by simp
    moreover have "filter is_Putenv (seg @ tr) = []"
      using seg tr by simp
    moreover have "list_all (run_sees k (environ st k)) (seg @ tr)"
      using seg tr st1 by simp
    moreover have "environ (fst (run_jobs cfg rc (bag # rest) st)) = environ st"
      using Inr st1 tr by simp
    ultimately show ?thesis by blast
  qed
qed




lemma shipped_run_sample:
  "printed (trace (fst (script shipped_config shipped_jobs (fail_at 1) Map.empty))) =
     [''Bagged: test_bag_1'', ''ERROR VALIDATING: test_bag_1'',
      ''Bagged: test_bag_2'', ''Validated: test_bag_2'', ''Uploaded: test_bag_2'',
      ''Bagged, Validated, Uploaded: test_bag_2'',
      ''Bagged: test_bag_3'', ''Validated: test_bag_3'', ''Uploaded: test_bag_3'',
      ''Bagged, Validated, Uploaded: test_bag_3'']"
  "ncalls (trace (fst (script shipped_config shipped_jobs (fail_at 1) Map.empty))) = 8"
  by (simp_all add: script_def shipped_jobs_def mk_job_def putenv_def process_job_trace
      ncalls_simps ncalls_append fail_at_def printed_append
      bag_name_def index_slash_def str_find_def slice_from_def)

text \<open>Two runs that get the same return codes print and run the same, step by step.\<close>

lemma run_jobs_ncalls_mono:
  "ncalls (trace st) \<le> ncalls (trace (fst (run_jobs cfg rc jobs st)))"
  using run_jobs_extends [of cfg rc jobs st "[]"] by (auto simp: ncalls_append)

lemma run_jobs_same_output:
  assumes "printed (trace st') = printed (trace st)"
    and "commands (trace st') = commands (trace st)"
    and "\<forall>i < ncalls (trace (fst (run_jobs cfg rc jobs st))). rc' i = rc i"
  shows "printed (trace (fst (run_jobs cfg rc' jobs st')))
       = printed (trace (fst (run_jobs cfg rc jobs st)))
     \<and> commands (trace (fst (run_jobs cfg rc' jobs st')))
       = commands (trace (fst (run_jobs cfg rc jobs st)))
     \<and> snd (run_jobs cfg rc' jobs st') = snd (run_jobs cfg rc jobs st)"
  using assms
proof (induction jobs arbitrary: st st')
  case Nil
  then show ?case by simp
next
  case (Cons bag rest)
  show ?case
  proof (cases "process_job cfg rc bag st")
    case (Inl e)
    then have "process_job cfg rc' bag st' = Inl e" by (rule process_job_Inl_any)
    with Inl Cons.prems show ?thesis by simp
  next
    case (Inr st1)
    then obtain t a src where keys: "bag ''title'' = Some t" "bag ''access'' = Some a"
      "bag ''source_dir'' = Some src"
      by (rule process_job_Inr_keys)
    let ?n = "ncalls (trace st)"
    have n': "ncalls (trace st') = ?n"
      using Cons.prems(2) by (simp add: ncalls_def)
    have run: "run_jobs cfg rc (bag # rest) st = run_jobs cfg rc rest st1"
      using Inr by simp
    have agree: "\<forall>i < ncalls (trace (fst (run_jobs cfg rc rest st1))). rc' i = rc i"
      using Cons.prems(3) run by simp
    have made: "ncalls (trace st1) \<le> ncalls (trace (fst (run_jobs cfg rc rest st1)))"
      by (rule run_jobs_ncalls_mono)
    have calls1: "ncalls (trace st1) = (if rc (Suc ?n) \<noteq> 0 then ?n + 2 else ?n + 3)"
      using Inr by (auto simp: process_job_trace [OF keys] ncalls_append ncalls_simps)
    have c: "rc' ?n = rc ?n" and v: "rc' (Suc ?n) = rc (Suc ?n)"
      using agree made calls1 by (auto split: if_splits)
    have u: "rc (Suc ?n) = 0 \<Longrightarrow> rc' (Suc (Suc ?n)) = rc (Suc (Suc ?n))"
      using agree made calls1 by (auto split: if_splits)
    obtain st1' where Inr': "process_job cfg rc' bag st' = Inr st1'"
      by (simp add: process_job_trace [OF keys])
    have p1: "printed (trace st1') = printed (trace st1)"
      using Inr Inr' Cons.prems(1) n' c v u
      by (auto simp: process_job_trace [OF keys] printed_append)
    have c1: "commands (trace st1') = commands (trace st1)"
      using Inr Inr' Cons.prems(2) n' c v u
      by (auto simp: process_job_trace [OF keys] commands_append)
    from Cons.IH [OF p1 c1 agree] Inr Inr' show ?thesis by simp
  qed
qed

text \<open>
  When no string contains a NUL character and every call completes, the script with the
  raising operations does what the script on returning calls does.
\<close>

lemma nul_free_simps:
  "nul_free []"
  "nul_free (c # cs) \<longleftrightarrow> c \<noteq> CHR 0x00 \<and> nul_free cs"
  "nul_free (xs @ ys) \<longleftrightarrow> nul_free xs \<and> nul_free ys"
  by (auto simp: nul_free_def)







lemma undecodable_output_ends_script:
  "snd (script_or_raise shipped_config [sample_job, sample_job] garbled_first Map.empty)
     = Some UnicodeDecodeError"
  "printed (trace (fst (script_or_raise shipped_config [sample_job, sample_job] garbled_first
     Map.empty))) = []"
  "ncalls (trace (fst (script_or_raise shipped_config [sample_job, sample_job] garbled_first
     Map.empty))) = 1"
  by (simp_all add: script_or_raise_def environ_setitem_def nul_free_simps shipped_config_def
      sample_job_def mk_job_def process_job_or_raise_def getitem_def
      subprocess_run_or_raise_def garbled_first_def putenv_def ncalls_simps ncalls_append
      create_command_def profile_full_def manifest_algs_flag_def output_file_def bag_dir_def
      source_organization_flag_def title_def access_def storage_option_flag_def
      bag_name_sample)


section \<open>The claims\<close>

text \<open>
  C1. For a job whose validate call returns \<open>0\<close>, the upload command is run, one line reports
  the upload (an \<open>ERROR UPLOADING\<close> line when its return code is not \<open>0\<close>), and the line
  \<open>Bagged, Validated, Uploaded: <bag_name>\<close> is printed after it whatever the upload's return
  code was. The theorem gives all the events of the job in order.
\<close>

theorem validated_job_prints_final_message:
  assumes "bag ''title'' = Some t" and "bag ''access'' = Some a"
    and "bag ''source_dir'' = Some src"
    and "rc (Suc (ncalls (trace st))) = 0"
  shows "process_job cfg rc bag st =
    Inr (st\<lparr>trace := trace st @
      [Run (create_command cfg src t a) (environ st),
       Print ((if rc (ncalls (trace st)) \<noteq> 0 then ''ERROR CREATING: '' else ''Bagged: '')
                @ bag_name src),
       Run (validate_command cfg src) (environ st),
       Print (''Validated: '' @ bag_name src),
       Run (upload_command cfg src) (environ st),
       Print ((if rc (Suc (Suc (ncalls (trace st)))) \<noteq> 0 then ''ERROR UPLOADING: ''
               else ''Uploaded: '') @ bag_name src),
       Print (''Bagged, Validated, Uploaded: '' @ bag_name src)]\<rparr>)"
  using assms by (simp add: process_job_trace)

theorem validated_job_prints_final_message_witness:
  "sample_job ''title'' = Some ''Bag 1''
   \<and> sample_job ''access'' = Some ''Institution''
   \<and> sample_job ''source_dir'' = Some ''/a/b/test_bag_1''
   \<and> fail_at 2 (Suc (ncalls (trace fresh))) = 0
   \<and> map_sum id (\<lambda>s. printed (trace s)) (process_job shipped_config (fail_at 2) sample_job fresh)
       = Inr [''Bagged: test_bag_1'', ''Validated: test_bag_1'',
              ''ERROR UPLOADING: test_bag_1'', ''Bagged, Validated, Uploaded: test_bag_1'']"
  using validated_job_prints_final_message [where bag = sample_job and t = "''Bag 1''"
      and a = "''Institution''" and src = "''/a/b/test_bag_1''" and rc = "fail_at 2"
      and st = fresh and cfg = shipped_config]
  by (simp add: sample_job_keys fail_at_def fresh_def ncalls_simps bag_name_sample)

text \<open>
  C2. When a job's validate call returns a non-zero code, the line
  \<open>ERROR VALIDATING: <bag_name>\<close> is printed, the job runs two commands only (create and
  validate, no upload), and the loop goes on with the rest of the list.
\<close>

theorem failed_validation_skips_upload:
  assumes "bag ''title'' = Some t" and "bag ''access'' = Some a"
    and "bag ''source_dir'' = Some src"
    and "rc (Suc (ncalls (trace st))) \<noteq> 0"
  shows "run_jobs cfg rc (bag # rest) st =
    run_jobs cfg rc rest
      (st\<lparr>trace := trace st @
        [Run (create_command cfg src t a) (environ st),
         Print ((if rc (ncalls (trace st)) \<noteq> 0 then ''ERROR CREATING: '' else ''Bagged: '')
                  @ bag_name src),
         Run (validate_command cfg src) (environ st),
         Print (''ERROR VALIDATING: '' @ bag_name src)]\<rparr>)"
  using assms by (simp add: process_job_trace)

theorem failed_validation_skips_upload_witness:
  "sample_job ''title'' = Some ''Bag 1''
   \<and> sample_job ''access'' = Some ''Institution''
   \<and> sample_job ''source_dir'' = Some ''/a/b/test_bag_1''
   \<and> fail_at 1 (Suc (ncalls (trace fresh))) \<noteq> 0
   \<and> printed (trace (fst (run_jobs shipped_config (fail_at 1) [sample_job, sample_job] fresh)))
       = [''Bagged: test_bag_1'', ''ERROR VALIDATING: test_bag_1'',
          ''Bagged: test_bag_1'', ''Validated: test_bag_1'', ''Uploaded: test_bag_1'',
          ''Bagged, Validated, Uploaded: test_bag_1'']
   \<and> length (commands (trace (fst (run_jobs shipped_config (fail_at 1) [sample_job, sample_job] fresh)))) = 5"
  using failed_validation_skips_upload [where bag = sample_job and t = "''Bag 1''"
      and a = "''Institution''" and src = "''/a/b/test_bag_1''" and rc = "fail_at 1"
      and st = fresh and cfg = shipped_config and rest = "[sample_job]"]
  by (simp add: sample_job_keys fail_at_def fresh_def ncalls_simps bag_name_sample
      process_job_trace)

text \<open>
  C3. When a job's create call returns a non-zero code, the line
  \<open>ERROR CREATING: <bag_name>\<close> is printed and the validate command is run next all the
  same.
\<close>

theorem failed_create_still_validates:
  assumes "bag ''title'' = Some t" and "bag ''access'' = Some a"
    and "bag ''source_dir'' = Some src"
    and "rc (ncalls (trace st)) \<noteq> 0"
  shows "process_job cfg rc bag st =
    Inr (st\<lparr>trace := trace st @
      [Run (create_command cfg src t a) (environ st),
       Print (''ERROR CREATING: '' @ bag_name src),
       Run (validate_command cfg src) (environ st)] @
      (if rc (Suc (ncalls (trace st))) \<noteq> 0
       then [Print (''ERROR VALIDATING: '' @ bag_name src)]
       else [Print (''Validated: '' @ bag_name src),
             Run (upload_command cfg src) (environ st),
             Print ((if rc (Suc (Suc (ncalls (trace st)))) \<noteq> 0 then ''ERROR UPLOADING: ''
                     else ''Uploaded: '') @ bag_name src),
             Print (''Bagged, Validated, Uploaded: '' @ bag_name src)])\<rparr>)"
  using assms by (simp add: process_job_trace)

theorem failed_create_still_validates_witness:
  "sample_job ''title'' = Some ''Bag 1''
   \<and> sample_job ''access'' = Some ''Institution''
   \<and> sample_job ''source_dir'' = Some ''/a/b/test_bag_1''
   \<and> fail_at 0 (ncalls (trace fresh)) \<noteq> 0
   \<and> map_sum id (\<lambda>s. take 3 (trace s)) (process_job shipped_config (fail_at 0) sample_job fresh)
       = Inr [Run (create_command shipped_config ''/a/b/test_bag_1'' ''Bag 1'' ''Institution'')
                Map.empty,
              Print ''ERROR CREATING: test_bag_1'',
              Run (validate_command shipped_config ''/a/b/test_bag_1'') Map.empty]"
  using failed_create_still_validates [where bag = sample_job and t = "''Bag 1''"
      and a = "''Institution''" and src = "''/a/b/test_bag_1''" and rc = "fail_at 0"
      and st = fresh and cfg = shipped_config]
  by (simp add: sample_job_keys fail_at_def fresh_def ncalls_simps bag_name_sample)

text \<open>
  C4. The derived bag name is meant to be the last path segment of the source directory. For a
  source directory that ends in \<^verbatim>\<open>/\<close> the reversed string has its first
  \<^verbatim>\<open>/\<close> at index \<open>0\<close>, the slice starts at \<open>-0 = 0\<close>, and the bag name is the whole
  path, not its last segment.
\<close>

theorem bag_name_trailing_slash:
  "bag_name ''/a/b/test_bag_1/'' = ''/a/b/test_bag_1/''
   \<and> last_segment ''/a/b/test_bag_1/'' = ''''
   \<and> last_segment ''/a/b/test_bag_1'' = ''test_bag_1''"
  by (simp add: bag_name_def index_slash_def str_find_def slice_from_def last_segment_def)

text \<open>
  C5, as stated: for every job the create command has exactly one \<^verbatim>\<open>--bag-dir\<close> flag,
  and its value is the job's source directory. The command string is a plain concatenation:
  the title is put between single quotes without escaping. A title that contains single
  quotes, here \<^verbatim>\<open>a' --bag-dir=/x 'b\<close>, closes the quoted part, and the shell then
  sees a second \<^verbatim>\<open>--bag-dir\<close> flag, with the value \<^verbatim>\<open>/x\<close>.
\<close>

theorem create_command_flags_counterexample:
  "map_option (flag_values ''--bag-dir'')
     (sh_words (create_command shipped_config ''/a/b/test_bag_1'' ''a' --bag-dir=/x 'b''
        ''Institution''))
   = Some [''/a/b/test_bag_1'', ''/x'']"
  by (simp add: sh_words_def create_command_def profile_full_def manifest_algs_flag_def
      output_file_def bag_dir_def source_organization_flag_def title_def access_def
      storage_option_flag_def word_of_def blank_def plain_def shipped_config_def
      flag_values_def bag_name_sample)

text \<open>
  C5, amended. When the configured profile, manifest algorithms and output directory and the
  job's source directory consist of plain characters (letters, digits and
  \<^verbatim>\<open>/ . _ - = , :\<close>), and the configured source organisation and storage option and the
  job's title and access contain no single quote, the shell splits the create command into
  the eleven words given below. Exactly one of them is a \<^verbatim>\<open>--bag-dir\<close> flag, and its
  value is the job's source directory; the \<^verbatim>\<open>--tags\<close> flags are, in this order, those
  for Source-Organization, Title, Access and Storage-Option, carrying the configured source
  organisation, the job's title, the job's access and the configured storage option.
\<close>

theorem create_command_one_bag_dir_and_tags:
  assumes "list_all plain (profile cfg)" and "list_all plain (manifest_algs cfg)"
    and "list_all plain (output_dir cfg)" and "list_all plain src"
    and "CHR 0x27 \<notin> set (source_organization cfg)" and "CHR 0x27 \<notin> set t"
    and "CHR 0x27 \<notin> set a" and "CHR 0x27 \<notin> set (storage_option cfg)"
  shows "sh_words (create_command cfg src t a) =
      Some [''apt-cmd'', ''bag'', ''create'',
            ''--profile='' @ profile cfg,
            ''--manifest-algs='' @ manifest_algs cfg,
            ''--output-file='' @ output_dir cfg @ ''/'' @ bag_name src @ ''.tar'',
            ''--bag-dir='' @ src,
            ''--tags=bag-info.txt/Source-Organization='' @ source_organization cfg,
            ''--tags=aptrust-info.txt/Title='' @ t,
            ''--tags=aptrust-info.txt/Access='' @ a,
            ''--tags=aptrust-info.txt/Storage-Option='' @ storage_option cfg]
    \<and> map_option (flag_values ''--bag-dir'') (sh_words (create_command cfg src t a)) = Some [src]
    \<and> map_option (flag_values ''--tags'') (sh_words (create_command cfg src t a)) =
        Some [''bag-info.txt/Source-Organization='' @ source_organization cfg,
              ''aptrust-info.txt/Title='' @ t,
              ''aptrust-info.txt/Access='' @ a,
              ''aptrust-info.txt/Storage-Option='' @ storage_option cfg]"
  by (simp add: sh_words_create_command [OF assms] flag_values_def)

theorem create_command_one_bag_dir_and_tags_witness:
  "list_all plain (profile shipped_config) \<and> list_all plain (manifest_algs shipped_config)
   \<and> list_all plain (output_dir shipped_config) \<and> list_all plain ''/a/b/test_bag_1''
   \<and> CHR 0x27 \<notin> set (source_organization shipped_config) \<and> CHR 0x27 \<notin> set ''Bag 1''
   \<and> CHR 0x27 \<notin> set ''Institution'' \<and> CHR 0x27 \<notin> set (storage_option shipped_config)
   \<and> sh_words (create_command shipped_config ''/a/b/test_bag_1'' ''Bag 1'' ''Institution'') =
      Some [''apt-cmd'', ''bag'', ''create'', ''--profile=aptrust'',
            ''--manifest-algs=md5,sha256'',
            ''--output-file=/home/emory/aptrust/testing_files/testing_output/test_bag_1.tar'',
            ''--bag-dir=/a/b/test_bag_1'',
            ''--tags=bag-info.txt/Source-Organization=College'',
            ''--tags=aptrust-info.txt/Title=Bag 1'',
            ''--tags=aptrust-info.txt/Access=Institution'',
            ''--tags=aptrust-info.txt/Storage-Option=Standard'']
   \<and> map_option (flag_values ''--bag-dir'')
        (sh_words (create_command shipped_config ''/a/b/test_bag_1'' ''Bag 1'' ''Institution''))
      = Some [''/a/b/test_bag_1'']"
  using create_command_one_bag_dir_and_tags [where cfg = shipped_config
      and src = "''/a/b/test_bag_1''" and t = "''Bag 1''" and a = "''Institution''"]
  by (auto simp: plain_def shipped_config_def bag_name_sample)

text \<open>
  C6, as stated: a job prints exactly as many lines as it runs steps. It does not: a job whose
  three steps all succeed runs three commands and prints four lines.
\<close>

theorem one_line_per_step_counterexample:
  "length (printed (job_events shipped_config all_ok sample_job fresh))
     \<noteq> length (commands (job_events shipped_config all_ok sample_job fresh))"
  by (simp add: job_events_eq [OF sample_job_keys] all_ok_def)

text \<open>
  C6, amended. Each step a job executes is followed at once by exactly one printed line that
  reports the step's success or failure. A job whose validation succeeded prints one more
  line after its upload line, \<open>Bagged, Validated, Uploaded: <bag_name>\<close>; a job whose
  validation failed prints nothing more. So a job prints as many lines as it runs steps when
  its validation fails (two), and one line more than steps when it succeeds (four for three).
\<close>

theorem one_line_per_step_and_closing_line:
  assumes "bag ''title'' = Some t" and "bag ''access'' = Some a"
    and "bag ''source_dir'' = Some src"
  shows "job_events cfg rc bag st =
      [Run (create_command cfg src t a) (environ st),
       Print ((if rc (ncalls (trace st)) \<noteq> 0 then ''ERROR CREATING: '' else ''Bagged: '')
                @ bag_name src),
       Run (validate_command cfg src) (environ st)] @
      (if rc (Suc (ncalls (trace st))) \<noteq> 0
       then [Print (''ERROR VALIDATING: '' @ bag_name src)]
       else [Print (''Validated: '' @ bag_name src),
             Run (upload_command cfg src) (environ st),
             Print ((if rc (Suc (Suc (ncalls (trace st)))) \<noteq> 0 then ''ERROR UPLOADING: ''
                     else ''Uploaded: '') @ bag_name src),
             Print (''Bagged, Validated, Uploaded: '' @ bag_name src)])
    \<and> length (printed (job_events cfg rc bag st)) =
        length (commands (job_events cfg rc bag st))
          + (if rc (Suc (ncalls (trace st))) \<noteq> 0 then 0 else 1)"
  using assms by (simp add: job_events_eq)

theorem one_line_per_step_and_closing_line_witness:
  "sample_job ''title'' = Some ''Bag 1''
   \<and> sample_job ''access'' = Some ''Institution''
   \<and> sample_job ''source_dir'' = Some ''/a/b/test_bag_1''
   \<and> printed (job_events shipped_config (fail_at 1) sample_job fresh)
        = [''Bagged: test_bag_1'', ''ERROR VALIDATING: test_bag_1'']
   \<and> length (commands (job_events shipped_config (fail_at 1) sample_job fresh)) = 2
   \<and> printed (job_events shipped_config all_ok sample_job fresh)
        = [''Bagged: test_bag_1'', ''Validated: test_bag_1'', ''Uploaded: test_bag_1'',
           ''Bagged, Validated, Uploaded: test_bag_1'']
   \<and> length (commands (job_events shipped_config all_ok sample_job fresh)) = 3"
  using one_line_per_step_and_closing_line [where bag = sample_job and t = "''Bag 1''"
      and a = "''Institution''" and src = "''/a/b/test_bag_1''" and rc = "fail_at 1"
      and st = fresh and cfg = shipped_config]
    one_line_per_step_and_closing_line [where bag = sample_job and t = "''Bag 1''"
      and a = "''Institution''" and src = "''/a/b/test_bag_1''" and rc = all_ok
      and st = fresh and cfg = shipped_config]
  by (simp add: sample_job_keys fail_at_def all_ok_def fresh_def ncalls_simps bag_name_sample)




text \<open>
  C8. The first two effects of the script are the assignments of \<^verbatim>\<open>APTRUST_AWS_KEY\<close>
  and \<^verbatim>\<open>APTRUST_AWS_SECRET\<close>; no later effect assigns to the environment; every
  command the script runs is run in an environment that holds the configured key and secret
  under these names; and the environment at the end is the initial one with these two
  entries set.
\<close>

theorem credentials_set_once_before_any_call:
  "take 2 (trace (fst (script cfg jobs rc env0))) =
     [Putenv ''APTRUST_AWS_KEY'' (aws_access_key cfg),
      Putenv ''APTRUST_AWS_SECRET'' (aws_secret_key cfg)]
   \<and> filter is_Putenv (drop 2 (trace (fst (script cfg jobs rc env0)))) = []
   \<and> list_all (run_sees ''APTRUST_AWS_KEY'' (Some (aws_access_key cfg)))
        (trace (fst (script cfg jobs rc env0)))
   \<and> list_all (run_sees ''APTRUST_AWS_SECRET'' (Some (aws_secret_key cfg)))
        (trace (fst (script cfg jobs rc env0)))
   \<and> environ (fst (script cfg jobs rc env0)) =
        env0(''APTRUST_AWS_KEY'' \<mapsto> aws_access_key cfg,
             ''APTRUST_AWS_SECRET'' \<mapsto> aws_secret_key cfg)"
proof -
  let ?st = "putenv ''APTRUST_AWS_SECRET'' (aws_secret_key cfg)
         (putenv ''APTRUST_AWS_KEY'' (aws_access_key cfg) \<lparr>environ = env0, trace = []\<rparr>)"
  have st: "trace ?st = [Putenv ''APTRUST_AWS_KEY'' (aws_access_key cfg),
      Putenv ''APTRUST_AWS_SECRET'' (aws_secret_key cfg)]"
    "environ ?st = env0(''APTRUST_AWS_KEY'' \<mapsto> aws_access_key cfg,
             ''APTRUST_AWS_SECRET'' \<mapsto> aws_secret_key cfg)"
    by (simp_all add: putenv_def)
  have k: "environ ?st ''APTRUST_AWS_KEY'' = Some (aws_access_key cfg)"
    and s: "environ ?st ''APTRUST_AWS_SECRET'' = Some (aws_secret_key cfg)"
    by (simp_all add: putenv_def)
  obtain tr where tr: "trace (fst (run_jobs cfg rc jobs ?st)) = trace ?st @ tr"
    "filter is_Putenv tr = []"
    "environ (fst (run_jobs cfg rc jobs ?st)) = environ ?st"
    using run_jobs_extends [of cfg rc jobs ?st] by blast
  have "list_all (run_sees ''APTRUST_AWS_KEY'' (Some (aws_access_key cfg))) tr"
    using run_jobs_extends [of cfg rc jobs ?st "''APTRUST_AWS_KEY''"] tr(1) k by auto
  moreover have "list_all (run_sees ''APTRUST_AWS_SECRET'' (Some (aws_secret_key cfg))) tr"
    using run_jobs_extends [of cfg rc jobs ?st "''APTRUST_AWS_SECRET''"] tr(1) s by auto
  ultimately show ?thesis
    using tr st by (simp add: script_def)
qed

text \<open>
  C9. The validate command and the upload command end in the same tar file path, the
  configured output directory, \<^verbatim>\<open>/\<close>, the bag name and \<^verbatim>\<open>.tar\<close>; and this is the
  path that follows \<^verbatim>\<open>--output-file=\<close> in the create command, up to the next flag.
\<close>

theorem same_tar_path_in_all_commands:
  "validate_command cfg src =
     ''apt-cmd bag validate -p '' @ profile cfg @ '' ''
       @ (output_dir cfg @ ''/'' @ bag_name src @ ''.tar'')
   \<and> upload_command cfg src =
       ''apt-cmd s3 upload --host=s3.amazonaws.com --bucket='' @ dquote @ bucket_name cfg @ dquote
         @ '' '' @ (output_dir cfg @ ''/'' @ bag_name src @ ''.tar'')
   \<and> create_command cfg src t a =
       ''apt-cmd bag create --profile='' @ profile cfg @ '' --manifest-algs='' @ manifest_algs cfg
         @ '' --output-file='' @ (output_dir cfg @ ''/'' @ bag_name src @ ''.tar'')
         @ '' --bag-dir='' @ src
         @ source_organization_flag cfg @ title t @ access a @ storage_option_flag cfg"
  by (simp add: validate_command_def upload_command_def create_command_def
      profile_full_def manifest_algs_flag_def output_file_def bag_dir_def)

text \<open>
  C10. With the configuration and the job list fixed, the printed lines are determined by the
  return codes the calls return: if a second run gets, at every call the first run makes, the
  same return code (whatever the codes it would get later, and whatever environment it was
  started in), it prints the same lines in the same order.
\<close>

theorem output_determined_by_return_codes:
  assumes "\<forall>i < ncalls (trace (fst (script cfg jobs rc env0))). rc' i = rc i"
  shows "printed (trace (fst (script cfg jobs rc' env0')))
       = printed (trace (fst (script cfg jobs rc env0)))"
proof -
  let ?st = "\<lambda>e. putenv ''APTRUST_AWS_SECRET'' (aws_secret_key cfg)
         (putenv ''APTRUST_AWS_KEY'' (aws_access_key cfg) \<lparr>environ = e, trace = []\<rparr>)"
  have "printed (trace (?st env0')) = printed (trace (?st env0))"
    and "commands (trace (?st env0')) = commands (trace (?st env0))"
    by (simp_all add: putenv_def)
  moreover have "\<forall>i < ncalls (trace (fst (run_jobs cfg rc jobs (?st env0)))). rc' i = rc i"
    using assms by (simp add: script_def)
  ultimately show ?thesis
    unfolding script_def by (rule run_jobs_same_output [THEN conjunct1])
qed

theorem output_determined_by_return_codes_witness:
  "list_all (\<lambda>i. fail_at_and_from 1 8 i = fail_at 1 i)
     [0 ..< ncalls (trace (fst (script shipped_config shipped_jobs (fail_at 1) Map.empty)))]
   \<and> fail_at_and_from 1 8 8 \<noteq> fail_at 1 8
   \<and> printed (trace (fst (script shipped_config shipped_jobs (fail_at_and_from 1 8) other_env)))
       = printed (trace (fst (script shipped_config shipped_jobs (fail_at 1) Map.empty)))"
proof -
  have agree: "\<forall>i < ncalls (trace (fst (script shipped_config shipped_jobs (fail_at 1) Map.empty))).
      fail_at_and_from 1 8 i = fail_at 1 i"
    unfolding shipped_run_sample(2) by (simp add: fail_at_and_from_def fail_at_def)
  then have "list_all (\<lambda>i. fail_at_and_from 1 8 i = fail_at 1 i)
     [0 ..< ncalls (trace (fst (script shipped_config shipped_jobs (fail_at 1) Map.empty)))]"
    by (simp add: list_all_iff)
  moreover have "fail_at_and_from 1 8 8 \<noteq> fail_at 1 8"
    by (simp add: fail_at_and_from_def fail_at_def)
  moreover note output_determined_by_return_codes [OF agree, of other_env]
  ultimately show ?thesis by (simp only: simp_thms)
qed

end
